theory Spec2Isabelle
  imports Main
begin

section \<open>Data model (game.py)\<close>

text \<open>\<^verbatim>\<open>class COLOR(Enum)\<close>: state of a cell.\<close>

datatype COLOR = BLACK | WHITE | UNTOUCHED

text \<open>\<^verbatim>\<open>class GAMESTATE(Enum)\<close> with its two predicates.\<close>

datatype GAMESTATE =
  INITIALIZING | RUNNING_BLACK | RUNNING_WHITE | WIN_BLACK | WIN_WHITE | DRAW

definition is_running :: "GAMESTATE \<Rightarrow> bool" where
  "is_running s = (s \<in> set [RUNNING_WHITE, RUNNING_BLACK])"

definition is_finished :: "GAMESTATE \<Rightarrow> bool" where
  "is_finished s = (s \<in> set [WIN_BLACK, WIN_WHITE, DRAW])"

text \<open>A colour field of either class holds a \<^verbatim>\<open>COLOR\<close> or Python's \<^verbatim>\<open>None\<close> (the
  value of \<^verbatim>\<open>_my_color\<close> and \<^verbatim>\<open>_opponent_color\<close> before the first running state), and
  \<^verbatim>\<open>move\<close> stores such a field into the board, so a board cell holds the same kind of
  value. A board is a list of rows; a direction and a cell are pairs of Python integers.
  A legal-move dictionary is kept as an association list in insertion order, which is
  the order in which Python iterates over it; its keys are distinct because every cell
  is visited once.\<close>

type_synonym pycolor = "COLOR option"
type_synonym board = "pycolor list list"
type_synonym direction = "int \<times> int"
type_synonym cell = "int \<times> int"
type_synonym legal_map = "(cell \<times> direction list) list"

definition DIRECTIONS :: "direction list" where
  "DIRECTIONS = [(-1, -1), (-1, 0), (-1, 1), (0, -1), (0, 1), (1, -1), (1, 0), (1, 1)]"

section \<open>Search Engine: legal-move scan (bot.py, lines 80-111)\<close>

text \<open>The guard of the \<^verbatim>\<open>while\<close> loops: \<^verbatim>\<open>0 <= r < len(board) and 0 <= c < len(board[0])\<close>.
  The second length is only read when the first conjunct holds, so the board has a row 0.\<close>

definition in_board :: "board \<Rightarrow> int \<Rightarrow> int \<Rightarrow> bool" where
  "in_board b r c = (0 \<le> r \<and> r < int (length b) \<and> 0 \<le> c \<and> c < int (length (b ! 0)))"

text \<open>A bounds-checked read \<^verbatim>\<open>board[r][c]\<close>.\<close>

definition at :: "board \<Rightarrow> int \<Rightarrow> int \<Rightarrow> pycolor" where
  "at b r c = b ! nat r ! nat c"

text \<open>Lines 87-90. The loop body reassigns \<^verbatim>\<open>r, c = row + d[0], col + d[1]\<close>, from
  \<^verbatim>\<open>row\<close> and \<^verbatim>\<open>col\<close>, not from \<^verbatim>\<open>r\<close> and \<^verbatim>\<open>c\<close>. The loop may run forever, which is
  the value \<open>None\<close>; on exit it yields \<open>(r, c, count)\<close>.\<close>

partial_function (option) bot_walk ::
  "board \<Rightarrow> pycolor \<Rightarrow> int \<Rightarrow> int \<Rightarrow> direction \<Rightarrow> int \<Rightarrow> int \<Rightarrow> int \<Rightarrow> (int \<times> int \<times> int) option"
where
  "bot_walk b opponent_color row col d r c count =
     (if in_board b r c \<and> at b r c = opponent_color
      then bot_walk b opponent_color row col d (row + fst d) (col + snd d) (count + 1)
      else Some (r, c, count))"

declare bot_walk.simps [code]

text \<open>Lines 81-95, the loop over \<^verbatim>\<open>self.DIRECTIONS\<close>. The \<^verbatim>\<open>return d_list\<close> of line 95 is
  indented into the body of the \<^verbatim>\<open>for\<close>, so the function returns at the end of the first
  iteration and the remaining directions are never visited.\<close>

fun bot_directions_loop ::
  "board \<Rightarrow> pycolor \<Rightarrow> pycolor \<Rightarrow> int \<Rightarrow> int \<Rightarrow> direction list \<Rightarrow> direction list
     \<Rightarrow> direction list option"
where
  "bot_directions_loop b my_color opponent_color row col [] d_list = Some d_list"
| "bot_directions_loop b my_color opponent_color row col (d # ds) d_list =
     (case bot_walk b opponent_color row col d (row + fst d) (col + snd d) 0 of
        None \<Rightarrow> None
      | Some (r, c, count) \<Rightarrow>
          Some (if count > 0 \<and> in_board b r c \<and> at b r c = my_color
                then d_list @ [d] else d_list))"

definition bot_search_available_directions ::
  "board \<Rightarrow> pycolor \<Rightarrow> pycolor \<Rightarrow> int \<Rightarrow> int \<Rightarrow> direction list option"
where
  "bot_search_available_directions b my_color opponent_color row col =
     bot_directions_loop b my_color opponent_color row col DIRECTIONS []"

text \<open>The cells in the order of the two nested \<^verbatim>\<open>for\<close> loops over \<^verbatim>\<open>range(n)\<close> and
  \<^verbatim>\<open>range(m)\<close>.\<close>

definition cells_of :: "nat \<Rightarrow> nat \<Rightarrow> cell list" where
  "cells_of n m = concat (map (\<lambda>row. map (\<lambda>col. (int row, int col)) [0..<m]) [0..<n])"

text \<open>Lines 104-110: the scan over the cells, threading the dictionary built so far.\<close>

fun bot_scan :: "board \<Rightarrow> pycolor \<Rightarrow> pycolor \<Rightarrow> cell list \<Rightarrow> legal_map \<Rightarrow> legal_map option" where
  "bot_scan b my_color opponent_color [] legal_moves = Some legal_moves"
| "bot_scan b my_color opponent_color ((row, col) # cells) legal_moves =
     (if at b row col = Some UNTOUCHED then
        (case bot_search_available_directions b my_color opponent_color row col of
           None \<Rightarrow> None
         | Some directions \<Rightarrow>
             bot_scan b my_color opponent_color cells
               (if length directions > 0 then legal_moves @ [((row, col), directions)]
                else legal_moves))
      else bot_scan b my_color opponent_color cells legal_moves)"

text \<open>Lines 80-111. \<open>self_color\<close> and \<open>other_color\<close> are the bot's fields
  \<^verbatim>\<open>self.my_color\<close> and \<^verbatim>\<open>self.opponent_color\<close>; \<^verbatim>\<open>is_max\<close> selects the mover.\<close>

definition bot_search_legal_moves ::
  "board \<Rightarrow> pycolor \<Rightarrow> pycolor \<Rightarrow> bool \<Rightarrow> legal_map option"
where
  "bot_search_legal_moves b self_color other_color is_max =
     (let (my_color, opponent_color) =
            (if is_max then (self_color, other_color) else (other_color, self_color))
      in bot_scan b my_color opponent_color
           (cells_of (length b) (length (b ! 0))) [])"

section \<open>Python list indexing\<close>

datatype py_error = IndexError | KeyError | AssertionError

text \<open>\<^verbatim>\<open>xs[i]\<close> for a Python integer \<^verbatim>\<open>i\<close>: a negative index counts from the end, and
  an index outside \<open>-len \<dots> len - 1\<close> raises \<^verbatim>\<open>IndexError\<close>.\<close>

definition py_index :: "'a list \<Rightarrow> int \<Rightarrow> py_error + nat" where
  "py_index xs i =
     (let n = int (length xs); j = (if i < 0 then i + n else i)
      in if 0 \<le> j \<and> j < n then Inr (nat j) else Inl IndexError)"

text \<open>The unchecked read \<^verbatim>\<open>board[r][c]\<close> and the write \<^verbatim>\<open>board[r][c] = v\<close>.\<close>

definition board_get :: "board \<Rightarrow> int \<Rightarrow> int \<Rightarrow> py_error + pycolor" where
  "board_get b r c =
     (case py_index b r of
        Inl e \<Rightarrow> Inl e
      | Inr i \<Rightarrow> (case py_index (b ! i) c of Inl e \<Rightarrow> Inl e | Inr j \<Rightarrow> Inr (b ! i ! j)))"

definition board_set :: "board \<Rightarrow> int \<Rightarrow> int \<Rightarrow> pycolor \<Rightarrow> py_error + board" where
  "board_set b r c v =
     (case py_index b r of
        Inl e \<Rightarrow> Inl e
      | Inr i \<Rightarrow> (case py_index (b ! i) c of
                    Inl e \<Rightarrow> Inl e
                  | Inr j \<Rightarrow> Inr (b[i := (b ! i)[j := v]])))"

section \<open>Search Engine: static evaluation (bot.py, lines 113-152)\<close>

text \<open>\<^verbatim>\<open>INF\<close> of the source.\<close>

definition bot_INF :: int where "bot_INF = 10000"

definition SCORE_CORNER :: int where "SCORE_CORNER = 100"
definition SCORE_AROUND :: int where "SCORE_AROUND = -10"
definition SCORE_BOUND :: int where "SCORE_BOUND = 10"
definition SCORE_NORMAL :: int where "SCORE_NORMAL = 1"

text \<open>Lines 123-133: the weight the \<^verbatim>\<open>if\<close>/\<^verbatim>\<open>elif\<close> chain assigns to one cell, with
  \<^verbatim>\<open>bound = {0, size - 1}\<close> and \<^verbatim>\<open>around = {0, 1, size - 2, size - 1}\<close>.\<close>

definition cell_weight :: "int \<Rightarrow> int \<Rightarrow> int \<Rightarrow> int" where
  "cell_weight sz row col =
     (let bound = {0, sz - 1}; around = {0, 1, sz - 2, sz - 1}
      in if 0 < row \<and> row < sz - 1 \<and> 0 < col \<and> col < sz - 1 then SCORE_NORMAL
         else if row \<in> bound \<and> col \<in> bound then SCORE_CORNER
         else if row \<in> around \<and> col \<in> around then SCORE_AROUND
         else SCORE_BOUND)"

text \<open>Lines 117-133 (\<open>sz\<close> is \<^verbatim>\<open>size\<close>): the grid starts as zeros and the two nested loops assign each cell.\<close>

definition build_weights :: "nat \<Rightarrow> int list list" where
  "build_weights sz =
     foldl (\<lambda>weights (row, col).
              weights[nat row := (weights ! nat row)[nat col := cell_weight (int sz) row col]])
           (replicate sz (replicate sz 0)) (cells_of sz sz)"

text \<open>Lines 135-141: the accumulation of \<^verbatim>\<open>cell_score\<close>.\<close>

definition cell_score :: "board \<Rightarrow> pycolor \<Rightarrow> pycolor \<Rightarrow> int" where
  "cell_score b self_color other_color =
     (let sz = length b; weights = build_weights sz
      in foldl (\<lambda>score (row, col).
                  if at b row col = self_color then score + weights ! nat row ! nat col
                  else if at b row col = other_color then score - weights ! nat row ! nat col
                  else score)
               0 (cells_of sz sz))"

text \<open>Lines 145-149.\<close>

definition freedom_score :: "legal_map \<Rightarrow> legal_map \<Rightarrow> int" where
  "freedom_score opponent_moves my_moves =
     (let f0 = 0;
          f1 = (if length opponent_moves = 0 then f0 + 100 else f0);
          f2 = (if length my_moves = 0 then f1 - 100 else f1)
      in f2)"

text \<open>\<^verbatim>\<open>_evaluate\<close>. Either scan may fail to return, and then so does the evaluation.\<close>

definition evaluate :: "board \<Rightarrow> pycolor \<Rightarrow> pycolor \<Rightarrow> int option" where
  "evaluate b self_color other_color =
     (let score = cell_score b self_color other_color
      in case bot_search_legal_moves b self_color other_color False of
           None \<Rightarrow> None
         | Some opponent_moves \<Rightarrow>
             (case bot_search_legal_moves b self_color other_color True of
                None \<Rightarrow> None
              | Some my_moves \<Rightarrow> Some (score + freedom_score opponent_moves my_moves)))"

section \<open>Search Engine: negamax (bot.py, lines 34-78)\<close>

text \<open>Lines 66-67: \<^verbatim>\<open>while new_board[r][c] == opponent_color: new_board[r][c] = my_color\<close>.
  The body does not advance \<^verbatim>\<open>r, c\<close>. The read is unchecked and may raise; when both
  colours are equal the loop does not end.\<close>

partial_function (option) bot_flip_run ::
  "board \<Rightarrow> pycolor \<Rightarrow> pycolor \<Rightarrow> int \<Rightarrow> int \<Rightarrow> (py_error + board) option"
where
  "bot_flip_run b my opp r c =
     (case board_get b r c of
        Inl e \<Rightarrow> Some (Inl e)
      | Inr v \<Rightarrow>
          if v = opp
          then (case board_set b r c my of
                  Inl e \<Rightarrow> Some (Inl e)
                | Inr b' \<Rightarrow> bot_flip_run b' my opp r c)
          else Some (Inr b))"

declare bot_flip_run.simps [code]

text \<open>Lines 64-67: the loop over the recorded directions.\<close>

fun bot_flip_directions ::
  "board \<Rightarrow> pycolor \<Rightarrow> pycolor \<Rightarrow> int \<Rightarrow> int \<Rightarrow> direction list \<Rightarrow> (py_error + board) option"
where
  "bot_flip_directions b my opp row col [] = Some (Inr b)"
| "bot_flip_directions b my opp row col (d # ds) =
     (case bot_flip_run b my opp (row + fst d) (col + snd d) of
        None \<Rightarrow> None
      | Some (Inl e) \<Rightarrow> Some (Inl e)
      | Some (Inr b') \<Rightarrow> bot_flip_directions b' my opp row col ds)"

text \<open>Lines 61-67: the move made on the copy of the board.\<close>

definition bot_make_move ::
  "board \<Rightarrow> pycolor \<Rightarrow> pycolor \<Rightarrow> cell \<Rightarrow> direction list \<Rightarrow> (py_error + board) option"
where
  "bot_make_move b my opp mv directions =
     (let (row, col) = mv
      in case board_set b row col my of
           Inl e \<Rightarrow> Some (Inl e)
         | Inr new_board \<Rightarrow> bot_flip_directions new_board my opp row col directions)"

text \<open>\<^verbatim>\<open>_negamax\<close>, with the \<^verbatim>\<open>for\<close> loop of lines 59-77 as \<open>negamax_loop\<close>, which
  carries \<^verbatim>\<open>alpha\<close>, \<^verbatim>\<open>max_move\<close> and \<^verbatim>\<open>max_score\<close>. The result is \<open>None\<close> when a scan
  or a flip does not return, \<open>Inl\<close> when a flip raises.\<close>

function negamax ::
    "board \<Rightarrow> pycolor \<Rightarrow> pycolor \<Rightarrow> int \<Rightarrow> int \<Rightarrow> int \<Rightarrow> bool
       \<Rightarrow> (py_error + cell option \<times> int) option"
  and negamax_loop ::
    "board \<Rightarrow> pycolor \<Rightarrow> pycolor \<Rightarrow> int \<Rightarrow> int \<Rightarrow> int \<Rightarrow> bool \<Rightarrow> legal_map
       \<Rightarrow> cell option \<Rightarrow> int \<Rightarrow> (py_error + cell option \<times> int) option"
where
  "negamax b self_color other_color depth alpha beta is_max =
     (let flag = (if is_max then 1 else -1)
      in if depth \<le> 0 then
           (case evaluate b self_color other_color of
              None \<Rightarrow> None
            | Some v \<Rightarrow> Some (Inr (None, flag * v)))
         else
           (case bot_search_legal_moves b self_color other_color is_max of
              None \<Rightarrow> None
            | Some legal_moves \<Rightarrow>
                if length legal_moves = 0 then
                  (case bot_search_legal_moves b self_color other_color (\<not> is_max) of
                     None \<Rightarrow> None
                   | Some opponent_legal_moves \<Rightarrow>
                       if length opponent_legal_moves = 0 then
                         (case evaluate b self_color other_color of
                            None \<Rightarrow> None
                          | Some v \<Rightarrow> Some (Inr (None, flag * v)))
                       else
                         (case negamax b self_color other_color (depth - 1) (- beta) (- alpha)
                                 (\<not> is_max) of
                            None \<Rightarrow> None
                          | Some (Inl e) \<Rightarrow> Some (Inl e)
                          | Some (Inr (_, score)) \<Rightarrow> Some (Inr (None, - score))))
                else
                  negamax_loop b self_color other_color depth alpha beta is_max legal_moves
                    None (- bot_INF)))"
| "negamax_loop b self_color other_color depth alpha beta is_max [] max_move max_score =
     Some (Inr (max_move, max_score))"
| "negamax_loop b self_color other_color depth alpha beta is_max ((mv, directions) # rest)
       max_move max_score =
     (let (my, opp) = (if is_max then (self_color, other_color) else (other_color, self_color))
      in case bot_make_move b my opp mv directions of
           None \<Rightarrow> None
         | Some (Inl e) \<Rightarrow> Some (Inl e)
         | Some (Inr new_board) \<Rightarrow>
             (case negamax new_board self_color other_color (depth - 1) (- beta) (- alpha)
                     (\<not> is_max) of
                None \<Rightarrow> None
              | Some (Inl e) \<Rightarrow> Some (Inl e)
              | Some (Inr (_, s)) \<Rightarrow>
                  (let score = - s
                   in if score > alpha \<and> score \<ge> beta then Some (Inr (Some mv, score))
                      else
                        (let alpha' = (if score > alpha then max alpha score else alpha);
                             best = (if score > max_score then (Some mv, score)
                                     else (max_move, max_score))
                         in negamax_loop b self_color other_color depth alpha' beta is_max rest
                              (fst best) (snd best)))))"
  by pat_completeness auto
termination
  apply (relation "inv_image (less_than <*lex*> less_than <*lex*> less_than)
     (\<lambda>x. case x of
        Inl (b, sc, oc, depth, alpha, beta, is_max) \<Rightarrow>
          (nat depth, if depth > 0 then 2 else 0, 0)
      | Inr (b, sc, oc, depth, alpha, beta, is_max, items, mm, ms) \<Rightarrow>
          (nat depth, 1, length items))")
  apply auto
  done

section \<open>The un-pruned search the Search Engine's negamax is compared with\<close>

text \<open>A full minimax in negamax form over the same game tree: the same leaves, the same
  scan, the same pass rule and the same moves on copies of the board as \<open>negamax\<close>, with no
  \<^verbatim>\<open>alpha\<close> and \<^verbatim>\<open>beta\<close> and no early return. Every move is searched, and a move replaces
  the best one only with a strictly greater score, so the first move in scan order that
  attains the maximum is kept.\<close>

function minimax ::
    "board \<Rightarrow> pycolor \<Rightarrow> pycolor \<Rightarrow> int \<Rightarrow> bool \<Rightarrow> (py_error + cell option \<times> int) option"
  and minimax_loop ::
    "board \<Rightarrow> pycolor \<Rightarrow> pycolor \<Rightarrow> int \<Rightarrow> bool \<Rightarrow> legal_map \<Rightarrow> cell option \<Rightarrow> int
       \<Rightarrow> (py_error + cell option \<times> int) option"
where
  "minimax b self_color other_color depth is_max =
     (let flag = (if is_max then 1 else -1)
      in if depth \<le> 0 then
           (case evaluate b self_color other_color of
              None \<Rightarrow> None
            | Some v \<Rightarrow> Some (Inr (None, flag * v)))
         else
           (case bot_search_legal_moves b self_color other_color is_max of
              None \<Rightarrow> None
            | Some legal_moves \<Rightarrow>
                if length legal_moves = 0 then
                  (case bot_search_legal_moves b self_color other_color (\<not> is_max) of
                     None \<Rightarrow> None
                   | Some opponent_legal_moves \<Rightarrow>
                       if length opponent_legal_moves = 0 then
                         (case evaluate b self_color other_color of
                            None \<Rightarrow> None
                          | Some v \<Rightarrow> Some (Inr (None, flag * v)))
                       else
                         (case minimax b self_color other_color (depth - 1) (\<not> is_max) of
                            None \<Rightarrow> None
                          | Some (Inl e) \<Rightarrow> Some (Inl e)
                          | Some (Inr (_, score)) \<Rightarrow> Some (Inr (None, - score))))
                else
                  minimax_loop b self_color other_color depth is_max legal_moves
                    None (- bot_INF)))"
| "minimax_loop b self_color other_color depth is_max [] max_move max_score =
     Some (Inr (max_move, max_score))"
| "minimax_loop b self_color other_color depth is_max ((mv, directions) # rest)
       max_move max_score =
     (let (my, opp) = (if is_max then (self_color, other_color) else (other_color, self_color))
      in case bot_make_move b my opp mv directions of
           None \<Rightarrow> None
         | Some (Inl e) \<Rightarrow> Some (Inl e)
         | Some (Inr new_board) \<Rightarrow>
             (case minimax new_board self_color other_color (depth - 1) (\<not> is_max) of
                None \<Rightarrow> None
              | Some (Inl e) \<Rightarrow> Some (Inl e)
              | Some (Inr (_, s)) \<Rightarrow>
                  (let score = - s;
                       best = (if score > max_score then (Some mv, score)
                               else (max_move, max_score))
                   in minimax_loop b self_color other_color depth is_max rest
                        (fst best) (snd best))))"
  by pat_completeness auto
termination
  apply (relation "inv_image (less_than <*lex*> less_than <*lex*> less_than)
     (\<lambda>x. case x of
        Inl (b, sc, oc, depth, is_max) \<Rightarrow>
          (nat depth, if depth > 0 then 2 else 0, 0)
      | Inr (b, sc, oc, depth, is_max, items, mm, ms) \<Rightarrow>
          (nat depth, 1, length items))")
  apply auto
  done


section \<open>Game Engine (game.py)\<close>

definition BOARD_SIZE :: nat where "BOARD_SIZE = 8"

record game =
  board :: board
  state :: GAMESTATE
  legal_moves :: legal_map
  my_color :: pycolor
  opponent_color :: pycolor
  remain :: int
  white_count :: int
  black_count :: int
  no_move_round :: int

text \<open>\<^verbatim>\<open>__init__\<close>.\<close>

definition init_game :: game where
  "init_game =
     \<lparr>board = replicate BOARD_SIZE (replicate BOARD_SIZE (Some UNTOUCHED)),
      state = INITIALIZING, legal_moves = [], my_color = None, opponent_color = None,
      remain = 0, white_count = 0, black_count = 0, no_move_round = 0\<rparr>"

text \<open>The setter of the \<^verbatim>\<open>state\<close> property (lines 178-186).\<close>

definition set_state :: "game \<Rightarrow> GAMESTATE \<Rightarrow> game" where
  "set_state g v =
     (let g1 = g\<lparr>state := v\<rparr>
      in if v = RUNNING_BLACK then g1\<lparr>my_color := Some BLACK, opponent_color := Some WHITE\<rparr>
         else if v = RUNNING_WHITE then g1\<lparr>my_color := Some WHITE, opponent_color := Some BLACK\<rparr>
         else g1)"

text \<open>Lines 135-138: the walk over the opponent's cells; it advances from \<^verbatim>\<open>r, c\<close>.\<close>

partial_function (option) walk ::
  "board \<Rightarrow> pycolor \<Rightarrow> direction \<Rightarrow> int \<Rightarrow> int \<Rightarrow> int \<Rightarrow> (int \<times> int \<times> int) option"
where
  "walk b opp d r c count =
     (if 0 \<le> r \<and> r < int BOARD_SIZE \<and> 0 \<le> c \<and> c < int BOARD_SIZE \<and> at b r c = opp
      then walk b opp d (r + fst d) (c + snd d) (count + 1)
      else Some (r, c, count))"

declare walk.simps [code]

text \<open>Lines 132-143: the loop over all of \<^verbatim>\<open>self.DIRECTIONS\<close>.\<close>

fun directions_loop ::
  "game \<Rightarrow> int \<Rightarrow> int \<Rightarrow> direction list \<Rightarrow> direction list \<Rightarrow> direction list option"
where
  "directions_loop g row col [] directions = Some directions"
| "directions_loop g row col (d # ds) directions =
     (case walk (board g) (opponent_color g) d (row + fst d) (col + snd d) 0 of
        None \<Rightarrow> None
      | Some (r, c, count) \<Rightarrow>
          directions_loop g row col ds
            (if count > 0 \<and> (0 \<le> r \<and> r < int BOARD_SIZE \<and> 0 \<le> c \<and> c < int BOARD_SIZE)
                \<and> at (board g) r c = my_color g
             then directions @ [d] else directions))"

definition search_available_directions :: "game \<Rightarrow> int \<Rightarrow> int \<Rightarrow> direction list option" where
  "search_available_directions g row col = directions_loop g row col DIRECTIONS []"

text \<open>Lines 119-126.\<close>

fun scan :: "game \<Rightarrow> cell list \<Rightarrow> legal_map \<Rightarrow> legal_map option" where
  "scan g [] lm = Some lm"
| "scan g ((row, col) # cells) lm =
     (if at (board g) row col = Some UNTOUCHED then
        (case search_available_directions g row col of
           None \<Rightarrow> None
         | Some directions \<Rightarrow>
             scan g cells (if length directions > 0 then lm @ [((row, col), directions)] else lm))
      else scan g cells lm)"

text \<open>\<^verbatim>\<open>_search_legal_moves\<close> (lines 114-127), with its assertion.\<close>

definition search_legal_moves :: "game \<Rightarrow> (py_error + legal_map) option" where
  "search_legal_moves g =
     (if \<not> is_running (state g) then Some (Inl AssertionError)
      else map_option Inr (scan g (cells_of BOARD_SIZE BOARD_SIZE) []))"

text \<open>\<^verbatim>\<open>_count_board\<close> (lines 146-156); a Python \<^verbatim>\<open>bool\<close> added to an integer counts as
  0 or 1.\<close>

definition count_board :: "game \<Rightarrow> game" where
  "count_board g =
     (let (white, black, rem) =
            foldl (\<lambda>(white, black, rem) (row, col).
                     (white + of_bool (at (board g) row col = Some WHITE),
                      black + of_bool (at (board g) row col = Some BLACK),
                      rem + of_bool (at (board g) row col = Some UNTOUCHED)))
                  (0, 0, 0) (cells_of BOARD_SIZE BOARD_SIZE)
      in g\<lparr>remain := rem, white_count := white, black_count := black\<rparr>)"

text \<open>\<^verbatim>\<open>_end\<close> (lines 158-164).\<close>

definition game_end :: "game \<Rightarrow> game" where
  "game_end g =
     (if white_count g = black_count g then set_state g DRAW
      else if white_count g > black_count g then set_state g WIN_WHITE
      else set_state g WIN_BLACK)"

text \<open>\<^verbatim>\<open>_switch_side\<close> (lines 57-74). An exception leaves the engine in the state reached
  so far, which the \<open>Inl\<close> result carries. When the new side has no legal move the
  function returns with the state switched and \<^verbatim>\<open>_legal_moves\<close> not reassigned.\<close>

definition switch_side :: "game \<Rightarrow> (py_error \<times> game + game) option" where
  "switch_side g =
     (if \<not> is_running (state g) then Some (Inl (AssertionError, g))
      else
        (let g1 = (if state g = RUNNING_BLACK then set_state g RUNNING_WHITE
                   else set_state g RUNNING_BLACK)
         in case search_legal_moves g1 of
              None \<Rightarrow> None
            | Some (Inl e) \<Rightarrow> Some (Inl (e, g1))
            | Some (Inr lm) \<Rightarrow>
                if length lm > 0 then Some (Inr (g1\<lparr>no_move_round := 0, legal_moves := lm\<rparr>))
                else
                  (let g2 = g1\<lparr>no_move_round := no_move_round g1 + 1\<rparr>
                   in if no_move_round g2 \<ge> 2 then Some (Inr (game_end g2))
                      else Some (Inr g2))))"

text \<open>\<^verbatim>\<open>start\<close> (lines 76-91). \<open>colors\<close> is the list \<^verbatim>\<open>[COLOR.BLACK, COLOR.WHITE]\<close> after
  \<^verbatim>\<open>random.shuffle\<close>. There is no check of the current state.\<close>

definition board_put :: "board \<Rightarrow> nat \<Rightarrow> nat \<Rightarrow> pycolor \<Rightarrow> board" where
  "board_put b r c v = b[r := (b ! r)[c := v]]"

definition start :: "game \<Rightarrow> COLOR list \<Rightarrow> bool \<Rightarrow> (py_error \<times> game + game) option" where
  "start g colors black_first =
     (let b1 = board_put (board g) 3 3 (Some (colors ! 0));
          b2 = board_put b1 3 4 (Some (colors ! 1));
          b3 = board_put b2 4 3 (Some (colors ! 1));
          b4 = board_put b3 4 4 (Some (colors ! 0));
          g1 = count_board (g\<lparr>board := b4\<rparr>);
          g2 = (if black_first then set_state g1 RUNNING_BLACK else set_state g1 RUNNING_WHITE)
      in case search_legal_moves g2 of
           None \<Rightarrow> None
         | Some (Inl e) \<Rightarrow> Some (Inl (e, g2))
         | Some (Inr lm) \<Rightarrow> Some (Inr (g2\<lparr>legal_moves := lm\<rparr>)))"

text \<open>Lines 101-103: the flips along one direction. The reads are unchecked: an index
  past the end raises \<^verbatim>\<open>IndexError\<close> and a negative one wraps around. On an exception
  the cells flipped so far stay flipped.\<close>

partial_function (option) flip_run ::
  "board \<Rightarrow> pycolor \<Rightarrow> pycolor \<Rightarrow> direction \<Rightarrow> int \<Rightarrow> int \<Rightarrow> (py_error \<times> board + board) option"
where
  "flip_run b my opp d r c =
     (case board_get b r c of
        Inl e \<Rightarrow> Some (Inl (e, b))
      | Inr v \<Rightarrow>
          if v = opp
          then (case board_set b r c my of
                  Inl e \<Rightarrow> Some (Inl (e, b))
                | Inr b' \<Rightarrow> flip_run b' my opp d (r + fst d) (c + snd d))
          else Some (Inr b))"

declare flip_run.simps [code]

text \<open>Lines 99-103.\<close>

fun flip_directions ::
  "board \<Rightarrow> pycolor \<Rightarrow> pycolor \<Rightarrow> int \<Rightarrow> int \<Rightarrow> direction list
     \<Rightarrow> (py_error \<times> board + board) option"
where
  "flip_directions b my opp row col [] = Some (Inr b)"
| "flip_directions b my opp row col (d # ds) =
     (case flip_run b my opp d (row + fst d) (col + snd d) of
        None \<Rightarrow> None
      | Some (Inl eb) \<Rightarrow> Some (Inl eb)
      | Some (Inr b') \<Rightarrow> flip_directions b' my opp row col ds)"

text \<open>Lines 98-103: the placement and the flips, on a board.\<close>

definition apply_flips ::
  "board \<Rightarrow> pycolor \<Rightarrow> pycolor \<Rightarrow> int \<Rightarrow> int \<Rightarrow> direction list
     \<Rightarrow> (py_error \<times> board + board) option"
where
  "apply_flips b my opp row col available_directions =
     (case board_set b row col my of
        Inl e \<Rightarrow> Some (Inl (e, b))
      | Inr b1 \<Rightarrow> flip_directions b1 my opp row col available_directions)"

text \<open>\<^verbatim>\<open>move\<close> (lines 93-112). A missing key raises \<^verbatim>\<open>KeyError\<close>, which line 110 catches:
  the method prints and returns. Only the dictionary lookup raises \<^verbatim>\<open>KeyError\<close>; an
  \<^verbatim>\<open>IndexError\<close> or \<^verbatim>\<open>AssertionError\<close> passes through the handler to the caller. The
  result is the printed lines and the new state, or the exception and the state it
  leaves behind.\<close>

definition move :: "game \<Rightarrow> int \<Rightarrow> int \<Rightarrow> (py_error \<times> game + string list \<times> game) option" where
  "move g row col =
     (case map_of (legal_moves g) (row, col) of
        None \<Rightarrow> Some (Inr ([''Not a legal move!''], g))
      | Some available_directions \<Rightarrow>
          (case apply_flips (board g) (my_color g) (opponent_color g) row col
                  available_directions of
             None \<Rightarrow> None
           | Some (Inl (e, b')) \<Rightarrow> Some (Inl (e, g\<lparr>board := b'\<rparr>))
           | Some (Inr b') \<Rightarrow>
               (let g1 = count_board (g\<lparr>board := b'\<rparr>)
                in if remain g1 = 0 then Some (Inr ([], game_end g1))
                   else (case switch_side g1 of
                           None \<Rightarrow> None
                         | Some (Inl eg) \<Rightarrow> Some (Inl eg)
                         | Some (Inr g2) \<Rightarrow> Some (Inr ([], g2))))))"

section \<open>Search Engine: entry point (bot.py, lines 26-32)\<close>

definition analyze :: "game \<Rightarrow> int \<Rightarrow> (py_error + cell option) option" where
  "analyze g depth =
     (if \<not> (is_running (state g) \<and> depth > 0) then Some (Inl AssertionError)
      else (case negamax (board g) (my_color g) (opponent_color g) depth (- bot_INF) bot_INF
                    True of
              None \<Rightarrow> None
            | Some (Inl e) \<Rightarrow> Some (Inl e)
            | Some (Inr (mv, _)) \<Rightarrow> Some (Inr mv)))"

section \<open>Positions used below\<close>

text \<open>Successive calls \<^verbatim>\<open>game.move(row, col)\<close>, stopping at the first exception.\<close>

fun moves :: "game \<Rightarrow> cell list \<Rightarrow> (py_error \<times> game + game) option" where
  "moves g [] = Some (Inr g)"
| "moves g ((row, col) # rest) =
     (case move g row col of
        None \<Rightarrow> None
      | Some (Inl eg) \<Rightarrow> Some (Inl eg)
      | Some (Inr (_, g')) \<Rightarrow> moves g' rest)"

text \<open>A fresh engine, \<^verbatim>\<open>start()\<close> with the shuffle leaving \<^verbatim>\<open>[WHITE, BLACK]\<close> and black
  moving first, then the given moves.\<close>

definition play :: "cell list \<Rightarrow> (py_error \<times> game + game) option" where
  "play ms =
     (case start init_game [WHITE, BLACK] True of
        None \<Rightarrow> None
      | Some (Inl eg) \<Rightarrow> Some (Inl eg)
      | Some (Inr g) \<Rightarrow> moves g ms)"

text \<open>The position right after \<^verbatim>\<open>start()\<close>.\<close>

definition opening_position :: game where
  "opening_position =
     \<lparr>board = map (map Some)
        [[UNTOUCHED, UNTOUCHED, UNTOUCHED, UNTOUCHED, UNTOUCHED, UNTOUCHED, UNTOUCHED, UNTOUCHED],
         [UNTOUCHED, UNTOUCHED, UNTOUCHED, UNTOUCHED, UNTOUCHED, UNTOUCHED, UNTOUCHED, UNTOUCHED],
         [UNTOUCHED, UNTOUCHED, UNTOUCHED, UNTOUCHED, UNTOUCHED, UNTOUCHED, UNTOUCHED, UNTOUCHED],
         [UNTOUCHED, UNTOUCHED, UNTOUCHED, WHITE, BLACK, UNTOUCHED, UNTOUCHED, UNTOUCHED],
         [UNTOUCHED, UNTOUCHED, UNTOUCHED, BLACK, WHITE, UNTOUCHED, UNTOUCHED, UNTOUCHED],
         [UNTOUCHED, UNTOUCHED, UNTOUCHED, UNTOUCHED, UNTOUCHED, UNTOUCHED, UNTOUCHED, UNTOUCHED],
         [UNTOUCHED, UNTOUCHED, UNTOUCHED, UNTOUCHED, UNTOUCHED, UNTOUCHED, UNTOUCHED, UNTOUCHED],
         [UNTOUCHED, UNTOUCHED, UNTOUCHED, UNTOUCHED, UNTOUCHED, UNTOUCHED, UNTOUCHED, UNTOUCHED]],
      state = RUNNING_BLACK,
      legal_moves = [((2, 3), [(1, 0)]), ((3, 2), [(0, 1)]), ((4, 5), [(0, -1)]),
                     ((5, 4), [(-1, 0)])],
      my_color = Some BLACK, opponent_color = Some WHITE,
      remain = 60, white_count = 2, black_count = 2, no_move_round = 0\<rparr>"

text \<open>The position after six moves, black to move.\<close>

definition six_moves_position :: game where
  "six_moves_position =
     \<lparr>board = map (map Some)
        [[UNTOUCHED, UNTOUCHED, UNTOUCHED, UNTOUCHED, UNTOUCHED, UNTOUCHED, UNTOUCHED, UNTOUCHED],
         [UNTOUCHED, UNTOUCHED, UNTOUCHED, UNTOUCHED, UNTOUCHED, UNTOUCHED, UNTOUCHED, UNTOUCHED],
         [UNTOUCHED, UNTOUCHED, WHITE, WHITE, WHITE, BLACK, UNTOUCHED, UNTOUCHED],
         [UNTOUCHED, UNTOUCHED, UNTOUCHED, WHITE, BLACK, BLACK, UNTOUCHED, UNTOUCHED],
         [UNTOUCHED, UNTOUCHED, UNTOUCHED, BLACK, BLACK, BLACK, UNTOUCHED, UNTOUCHED],
         [UNTOUCHED, UNTOUCHED, UNTOUCHED, UNTOUCHED, UNTOUCHED, UNTOUCHED, UNTOUCHED, UNTOUCHED],
         [UNTOUCHED, UNTOUCHED, UNTOUCHED, UNTOUCHED, UNTOUCHED, UNTOUCHED, UNTOUCHED, UNTOUCHED],
         [UNTOUCHED, UNTOUCHED, UNTOUCHED, UNTOUCHED, UNTOUCHED, UNTOUCHED, UNTOUCHED, UNTOUCHED]],
      state = RUNNING_BLACK,
      legal_moves = [((1, 1), [(1, 1)]), ((1, 2), [(1, 1)]), ((1, 3), [(1, 0), (1, 1)]),
                     ((1, 4), [(1, 0)]), ((2, 1), [(0, 1)]), ((3, 2), [(0, 1)])],
      my_color = Some BLACK, opponent_color = Some WHITE,
      remain = 54, white_count = 4, black_count = 6, no_move_round = 0\<rparr>"

text \<open>The position after eight moves, the last one by white. The state names black, and
  \<open>legal_moves\<close> still holds the dictionary computed for white before its move.\<close>

definition stuck_position :: game where
  "stuck_position =
     \<lparr>board = map (map Some)
        [[UNTOUCHED, UNTOUCHED, UNTOUCHED, UNTOUCHED, UNTOUCHED, UNTOUCHED, UNTOUCHED, UNTOUCHED],
         [UNTOUCHED, UNTOUCHED, UNTOUCHED, UNTOUCHED, UNTOUCHED, UNTOUCHED, UNTOUCHED, UNTOUCHED],
         [UNTOUCHED, UNTOUCHED, UNTOUCHED, BLACK, UNTOUCHED, UNTOUCHED, UNTOUCHED, UNTOUCHED],
         [UNTOUCHED, UNTOUCHED, UNTOUCHED, BLACK, BLACK, UNTOUCHED, UNTOUCHED, UNTOUCHED],
         [UNTOUCHED, UNTOUCHED, UNTOUCHED, BLACK, BLACK, BLACK, UNTOUCHED, UNTOUCHED],
         [UNTOUCHED, UNTOUCHED, UNTOUCHED, UNTOUCHED, UNTOUCHED, BLACK, UNTOUCHED, WHITE],
         [UNTOUCHED, UNTOUCHED, UNTOUCHED, UNTOUCHED, UNTOUCHED, WHITE, WHITE, UNTOUCHED],
         [UNTOUCHED, UNTOUCHED, UNTOUCHED, UNTOUCHED, UNTOUCHED, WHITE, UNTOUCHED, BLACK]],
      state = RUNNING_BLACK,
      legal_moves = [((3, 5), [(1, 0)]), ((5, 7), [(1, -1)]), ((6, 7), [(0, -1)])],
      my_color = Some BLACK, opponent_color = Some WHITE,
      remain = 52, white_count = 4, black_count = 8, no_move_round = 1\<rparr>"

text \<open>The position after ten moves, black to move. No empty cell has a piece on its upper
  left.\<close>

definition ten_moves_position :: game where
  "ten_moves_position =
     \<lparr>board = map (map Some)
        [[UNTOUCHED, UNTOUCHED, UNTOUCHED, UNTOUCHED, UNTOUCHED, UNTOUCHED, UNTOUCHED, UNTOUCHED],
         [UNTOUCHED, UNTOUCHED, UNTOUCHED, UNTOUCHED, UNTOUCHED, UNTOUCHED, UNTOUCHED, UNTOUCHED],
         [UNTOUCHED, UNTOUCHED, UNTOUCHED, UNTOUCHED, UNTOUCHED, UNTOUCHED, UNTOUCHED, UNTOUCHED],
         [UNTOUCHED, UNTOUCHED, UNTOUCHED, WHITE, BLACK, UNTOUCHED, UNTOUCHED, UNTOUCHED],
         [UNTOUCHED, UNTOUCHED, UNTOUCHED, BLACK, BLACK, BLACK, UNTOUCHED, UNTOUCHED],
         [UNTOUCHED, UNTOUCHED, UNTOUCHED, UNTOUCHED, BLACK, WHITE, WHITE, UNTOUCHED],
         [UNTOUCHED, UNTOUCHED, UNTOUCHED, UNTOUCHED, UNTOUCHED, BLACK, WHITE, BLACK],
         [UNTOUCHED, UNTOUCHED, UNTOUCHED, UNTOUCHED, UNTOUCHED, WHITE, WHITE, WHITE]],
      state = RUNNING_BLACK,
      legal_moves = [((2, 2), [(1, 1)]), ((2, 3), [(1, 0)]), ((3, 2), [(0, 1)]),
                     ((4, 7), [(1, -1)]), ((5, 7), [(0, -1)])],
      my_color = Some BLACK, opponent_color = Some WHITE,
      remain = 50, white_count = 7, black_count = 7, no_move_round = 0\<rparr>"

section \<open>Auxiliary notions\<close>

text \<open>An empty cell whose upper-left neighbour holds the opponent's colour.\<close>

definition blocking_cell :: "board \<Rightarrow> pycolor \<Rightarrow> cell \<Rightarrow> bool" where
  "blocking_cell b opp rc =
     (at b (fst rc) (snd rc) = Some UNTOUCHED \<and> in_board b (fst rc - 1) (snd rc - 1)
      \<and> at b (fst rc - 1) (snd rc - 1) = opp)"

section \<open>The weight grid in the words of the specification\<close>

text \<open>The grid as the specification words it, in its order: corners; non-corner cells with
  row or column in \<open>{0, 1, N - 2, N - 1}\<close>; interior cells; remaining edge cells.\<close>

definition claimed_weight :: "int \<Rightarrow> int \<Rightarrow> int \<Rightarrow> int" where
  "claimed_weight n row col =
     (if row \<in> {0, n - 1} \<and> col \<in> {0, n - 1} then 100
      else if row \<in> {0, 1, n - 2, n - 1} \<or> col \<in> {0, 1, n - 2, n - 1} then - 10
      else if 0 < row \<and> row < n - 1 \<and> 0 < col \<and> col < n - 1 then 1
      else 10)"

text \<open>The grid the amended statement describes: corners 100; interior cells 1; the other
  cells, all on an edge, - 10 when row and column are both in \<open>{0, 1, N - 2, N - 1}\<close> and
  10 otherwise.\<close>

definition amended_weight :: "int \<Rightarrow> int \<Rightarrow> int \<Rightarrow> int" where
  "amended_weight n row col =
     (if row \<in> {0, n - 1} \<and> col \<in> {0, n - 1} then 100
      else if 0 < row \<and> row < n - 1 \<and> 0 < col \<and> col < n - 1 then 1
      else if row \<in> {0, 1, n - 2, n - 1} \<and> col \<in> {0, 1, n - 2, n - 1} then - 10
      else 10)"

text \<open>The sum over all cells of a grid's weight, counted positively on cells of one
  colour, negatively on cells of the other and not at all elsewhere.\<close>

definition weighted_sum ::
  "(int \<Rightarrow> int \<Rightarrow> int \<Rightarrow> int) \<Rightarrow> board \<Rightarrow> pycolor \<Rightarrow> pycolor \<Rightarrow> int" where
  "weighted_sum weight b self_color other_color =
     (\<Sum>(row, col) \<leftarrow> cells_of (length b) (length b).
        if at b row col = self_color then weight (int (length b)) row col
        else if at b row col = other_color then - weight (int (length b)) row col
        else 0)"

text \<open>The freedom term in the words of the specification: 100 more when the opponent has
  no legal move, 100 less when the evaluating side has none.\<close>

definition claimed_freedom :: "legal_map \<Rightarrow> legal_map \<Rightarrow> int" where
  "claimed_freedom opponent_moves my_moves =
     (if opponent_moves = [] then 100 else 0) - (if my_moves = [] then 100 else 0)"

text \<open>A board as \<^verbatim>\<open>__init__\<close> builds it: \<^verbatim>\<open>BOARD_SIZE\<close> rows of \<^verbatim>\<open>BOARD_SIZE\<close> cells.\<close>

definition full_board :: "board \<Rightarrow> bool" where
  "full_board b = (length b = BOARD_SIZE \<and> list_all (\<lambda>row. length row = BOARD_SIZE) b)"

text \<open>The two outcomes of \<^verbatim>\<open>random.shuffle\<close> on \<^verbatim>\<open>[COLOR.BLACK, COLOR.WHITE]\<close>.\<close>

definition shuffled :: "COLOR list \<Rightarrow> bool" where
  "shuffled colors = (colors = [BLACK, WHITE] \<or> colors = [WHITE, BLACK])"

text \<open>A board of \<open>N\<close> rows of \<open>N\<close> cells.\<close>

definition square :: "board \<Rightarrow> bool" where
  "square b = list_all (\<lambda>row. length row = length b) b"

section \<open>The positions are reached by play\<close>

lemma play_opening: "play [] = Some (Inr opening_position)"
  by code_simp

lemma play_six_moves:
  "play [(2, 3), (2, 2), (4, 5), (3, 5), (2, 5), (2, 4)] = Some (Inr six_moves_position)"
  by code_simp

lemma play_stuck:
  "play [(4, 5), (5, 5), (6, 5), (6, 6), (2, 3), (7, 5), (7, 7), (5, 7)]
     = Some (Inr stuck_position)"
  by code_simp

lemma play_ten_moves:
  "play [(4, 5), (5, 5), (6, 5), (6, 6), (5, 4), (7, 5), (7, 6), (7, 7), (6, 7), (5, 6)]
     = Some (Inr ten_moves_position)"
  by code_simp

section \<open>What the Search Engine's scan computes\<close>

lemma bot_walk_stuck:
  assumes "bot_walk b opp row col d r c count = Some res"
  shows "\<not> (r = row + fst d \<and> c = col + snd d \<and> in_board b r c \<and> at b r c = opp)"
proof (rule bot_walk.raw_induct
    [where P = "\<lambda>b opp row col d r c count res.
       \<not> (r = row + fst d \<and> c = col + snd d \<and> in_board b r c \<and> at b r c = opp)", OF _ assms])
  fix f :: "board \<Rightarrow> pycolor \<Rightarrow> int \<Rightarrow> int \<Rightarrow> direction \<Rightarrow> int \<Rightarrow> int \<Rightarrow> int
              \<Rightarrow> (int \<times> int \<times> int) option"
    and b opp row col d r c and count :: int and res
  assume IH: "\<And>b opp row col d r c count res. f b opp row col d r c count = Some res \<Longrightarrow>
       \<not> (r = row + fst d \<and> c = col + snd d \<and> in_board b r c \<and> at b r c = opp)"
    and step: "(if in_board b r c \<and> at b r c = opp
      then f b opp row col d (row + fst d) (col + snd d) (count + 1)
      else Some (r, c, count)) = Some res"
  show "\<not> (r = row + fst d \<and> c = col + snd d \<and> in_board b r c \<and> at b r c = opp)"
  proof (cases "in_board b r c \<and> at b r c = opp")
    case False
    then show ?thesis by blast
  next
    case True
    with step have "f b opp row col d (row + fst d) (col + snd d) (count + 1) = Some res"
      by simp
    from IH [OF this] show ?thesis by blast
  qed
qed

lemma bot_walk_None:
  "in_board b (row + fst d) (col + snd d) \<Longrightarrow> at b (row + fst d) (col + snd d) = opp \<Longrightarrow>
   bot_walk b opp row col d (row + fst d) (col + snd d) count = None"
  using bot_walk_stuck [of b opp row col d "row + fst d" "col + snd d" count]
  by (cases "bot_walk b opp row col d (row + fst d) (col + snd d) count") auto

lemma bot_walk_Some:
  "\<not> (in_board b r c \<and> at b r c = opp) \<Longrightarrow>
   bot_walk b opp row col d r c count = Some (r, c, count)"
  by (subst bot_walk.simps) auto

lemma bot_search_available_directions_cases:
  "bot_search_available_directions b my opp row col =
     (if in_board b (row - 1) (col - 1) \<and> at b (row - 1) (col - 1) = opp then None
      else Some [])"
  using bot_walk_None [of b row "(-1, -1)" col opp 0]
    bot_walk_Some [of b "row - 1" "col - 1" opp row col "(-1, -1)" 0]
  by (auto simp: bot_search_available_directions_def DIRECTIONS_def)

lemma bot_scan_cases:
  "bot_scan b my opp cells lm = (if list_ex (blocking_cell b opp) cells then None else Some lm)"
  by (induction cells arbitrary: lm)
     (auto simp: bot_search_available_directions_cases blocking_cell_def)

lemma bot_search_legal_moves_cases:
  "bot_search_legal_moves b sc oc is_max =
     (if list_ex (blocking_cell b (if is_max then oc else sc))
           (cells_of (length b) (length (b ! 0)))
      then None else Some [])"
  by (simp add: bot_search_legal_moves_def bot_scan_cases)


section \<open>Claims about the Search Engine's scan\<close>

text \<open>C3. The claim is that the Search Engine's legality scan terminates for every board
  and side. On the board right after \<^verbatim>\<open>start()\<close>, with black to move, the scan does not
  return: the empty cell (5, 5) has white at (4, 4), and the walk of lines 87-90 restarts
  from \<^verbatim>\<open>row + d[0], col + d[1]\<close> in every iteration. The Game Engine's scan returns on
  the same position.\<close>

theorem bot_search_legal_moves_not_returning:
  "play [] = Some (Inr opening_position)
   \<and> bot_search_legal_moves (board opening_position) (Some BLACK) (Some WHITE) True = None
   \<and> search_legal_moves opening_position
       = Some (Inr [((2, 3), [(1, 0)]), ((3, 2), [(0, 1)]), ((4, 5), [(0, -1)]),
                    ((5, 4), [(-1, 0)])])"
proof (intro conjI)
  show "play [] = Some (Inr opening_position)"
    by (rule play_opening)
  have len: "length (board opening_position) = 8" "length (board opening_position ! 0) = 8"
    by (simp_all add: opening_position_def)
  have "list_ex (blocking_cell (board opening_position) (Some WHITE)) (cells_of 8 8)"
    by code_simp
  then show "bot_search_legal_moves (board opening_position) (Some BLACK) (Some WHITE) True
      = None"
    unfolding bot_search_legal_moves_cases len by simp
  show "search_legal_moves opening_position
       = Some (Inr [((2, 3), [(1, 0)]), ((3, 2), [(0, 1)]), ((4, 5), [(0, -1)]),
                    ((5, 4), [(-1, 0)])])"
    by code_simp
qed

text \<open>C2. The claim is that the Search Engine's legal-move map tests all eight directions
  and equals the Game Engine's map. In the position after six moves the Game Engine finds
  six legal cells for black, and the Search Engine's scan returns the empty dictionary:
  it returns from the direction loop after the first direction, and its walk can only
  end with a count of zero.\<close>

theorem bot_legal_moves_differ_from_game:
  "play [(2, 3), (2, 2), (4, 5), (3, 5), (2, 5), (2, 4)] = Some (Inr six_moves_position)
   \<and> search_legal_moves six_moves_position
     = Some (Inr [((1, 1), [(1, 1)]), ((1, 2), [(1, 1)]), ((1, 3), [(1, 0), (1, 1)]),
                  ((1, 4), [(1, 0)]), ((2, 1), [(0, 1)]), ((3, 2), [(0, 1)])])
   \<and> bot_search_legal_moves (board six_moves_position) (Some BLACK) (Some WHITE) True = Some []"
proof (intro conjI)
  show "play [(2, 3), (2, 2), (4, 5), (3, 5), (2, 5), (2, 4)] = Some (Inr six_moves_position)"
    by (rule play_six_moves)
  have len: "length (board six_moves_position) = 8" "length (board six_moves_position ! 0) = 8"
    by (simp_all add: six_moves_position_def)
  have "\<not> list_ex (blocking_cell (board six_moves_position) (Some WHITE)) (cells_of 8 8)"
    by code_simp
  then show "bot_search_legal_moves (board six_moves_position) (Some BLACK) (Some WHITE) True
      = Some []"
    unfolding bot_search_legal_moves_cases len by simp
  show "search_legal_moves six_moves_position
     = Some (Inr [((1, 1), [(1, 1)]), ((1, 2), [(1, 1)]), ((1, 3), [(1, 0), (1, 1)]),
                  ((1, 4), [(1, 0)]), ((2, 1), [(0, 1)]), ((3, 2), [(0, 1)])])"
    by code_simp
qed

text \<open>The flip loop of lines 64-67 next to the Game Engine's, on black's legal move
  (1, 1) of the position after six moves, whose recorded direction (1, 1) crosses white's
  (2, 2) and (3, 3) before black's (4, 4). The Game Engine flips both; the loop of lines
  66-67 does not advance and flips (2, 2) only. No run of \<open>negamax\<close> reaches that loop,
  because its own scan records no move (\<open>bot_search_legal_moves_empty\<close>).\<close>

lemma negamax_flips_differ_from_move:
  "map_of (legal_moves six_moves_position) (1, 1) = Some [(1, 1)]
   \<and> apply_flips (board six_moves_position) (Some BLACK) (Some WHITE) 1 1 [(1, 1)]
     = Some (Inr (board_put (board_put (board_put (board six_moves_position)
                    1 1 (Some BLACK)) 2 2 (Some BLACK)) 3 3 (Some BLACK)))
   \<and> bot_make_move (board six_moves_position) (Some BLACK) (Some WHITE) (1, 1) [(1, 1)]
     = Some (Inr (board_put (board_put (board six_moves_position)
                    1 1 (Some BLACK)) 2 2 (Some BLACK)))
   \<and> board_put (board_put (board_put (board six_moves_position)
                    1 1 (Some BLACK)) 2 2 (Some BLACK)) 3 3 (Some BLACK)
     \<noteq> board_put (board_put (board six_moves_position) 1 1 (Some BLACK)) 2 2 (Some BLACK)"
  by code_simp

section \<open>The Game Engine's scan returns\<close>

lemma walk_returns:
  assumes "d \<in> set DIRECTIONS"
  shows "\<exists>res. walk b opp d r c count = Some res"
proof (induction "(if fst d > 0 then nat (8 - r) else if fst d < 0 then nat (r + 1)
                   else if snd d > 0 then nat (8 - c) else nat (c + 1))"
       arbitrary: r c count rule: less_induct)
  case less
  show ?case
  proof (cases "0 \<le> r \<and> r < int BOARD_SIZE \<and> 0 \<le> c \<and> c < int BOARD_SIZE \<and> at b r c = opp")
    case False
    then show ?thesis by (subst walk.simps) auto
  next
    case True
    have "\<exists>res. walk b opp d (r + fst d) (c + snd d) (count + 1) = Some res"
      by (rule less) (use assms True in \<open>auto simp: DIRECTIONS_def BOARD_SIZE_def\<close>)
    with True show ?thesis by (subst walk.simps) auto
  qed
qed

lemma directions_loop_returns:
  "set ds \<subseteq> set DIRECTIONS \<Longrightarrow> \<exists>res. directions_loop g row col ds acc = Some res"
proof (induction ds arbitrary: acc)
  case Nil
  then show ?case by simp
next
  case (Cons d ds)
  from Cons.prems have "d \<in> set DIRECTIONS" by simp
  from walk_returns [OF this]
  obtain res where "walk (board g) (opponent_color g) d (row + fst d) (col + snd d) 0 = Some res"
    by blast
  with Cons show ?case by (cases res) auto
qed

lemma scan_returns: "\<exists>res. scan g cells lm = Some res"
proof (induction cells arbitrary: lm)
  case Nil
  then show ?case by simp
next
  case (Cons rc cells)
  obtain row col where rc: "rc = (row, col)" by (cases rc)
  obtain ds where "search_available_directions g row col = Some ds"
    using directions_loop_returns [of DIRECTIONS g row col "[]"]
    by (auto simp: search_available_directions_def)
  with Cons rc show ?case by auto
qed

lemma search_legal_moves_returns:
  "is_running (state g) \<Longrightarrow> \<exists>lm. search_legal_moves g = Some (Inr lm)"
  using scan_returns [of g "cells_of BOARD_SIZE BOARD_SIZE" "[]"]
  by (auto simp: search_legal_moves_def)

lemma start_returns: "\<exists>g'. start g colors black_first = Some (Inr g') \<and> is_running (state g')"
proof -
  define g2 where "g2 = (let b1 = board_put (board g) 3 3 (Some (colors ! 0));
          b2 = board_put b1 3 4 (Some (colors ! 1));
          b3 = board_put b2 4 3 (Some (colors ! 1));
          b4 = board_put b3 4 4 (Some (colors ! 0));
          g1 = count_board (g\<lparr>board := b4\<rparr>)
       in (if black_first then set_state g1 RUNNING_BLACK else set_state g1 RUNNING_WHITE))"
  have run: "is_running (state g2)"
    by (simp add: g2_def Let_def set_state_def is_running_def)
  then obtain lm where lm: "search_legal_moves g2 = Some (Inr lm)"
    using search_legal_moves_returns by blast
  have "start g colors black_first = Some (Inr (g2\<lparr>legal_moves := lm\<rparr>))"
    using lm by (simp add: start_def g2_def Let_def)
  with run show ?thesis by simp
qed

section \<open>Claims about the Game Engine\<close>

text \<open>C4. The claim is that in every state reached from \<^verbatim>\<open>start()\<close> by successful moves, a
  running state names a side that has a legal move and stores that side's map, and that
  after a move leaving exactly one side without a legal move the other side is the side
  to move. After the eight moves below white has just moved; black has no legal move and
  white has two. \<^verbatim>\<open>_switch_side\<close> has returned with the state naming black and with the
  dictionary computed for white before its move.\<close>

theorem stuck_side_is_named_by_state:
  "play [(4, 5), (5, 5), (6, 5), (6, 6), (2, 3), (7, 5), (7, 7), (5, 7)]
     = Some (Inr stuck_position)
   \<and> state stuck_position = RUNNING_BLACK
   \<and> search_legal_moves stuck_position = Some (Inr [])
   \<and> search_legal_moves (set_state stuck_position RUNNING_WHITE)
       = Some (Inr [((2, 2), [(1, 1)]), ((3, 5), [(1, 0)])])
   \<and> map fst (legal_moves stuck_position) = [(3, 5), (5, 7), (6, 7)]"
proof (intro conjI)
  show "play [(4, 5), (5, 5), (6, 5), (6, 6), (2, 3), (7, 5), (7, 7), (5, 7)]
     = Some (Inr stuck_position)"
    by (rule play_stuck)
  show "state stuck_position = RUNNING_BLACK"
    by (simp add: stuck_position_def)
  show "search_legal_moves stuck_position = Some (Inr [])"
    by code_simp
  show "search_legal_moves (set_state stuck_position RUNNING_WHITE)
       = Some (Inr [((2, 2), [(1, 1)]), ((3, 5), [(1, 0)])])"
    by code_simp
  show "map fst (legal_moves stuck_position) = [(3, 5), (5, 7), (6, 7)]"
    by (simp add: stuck_position_def)
qed

text \<open>C10. The claim is that \<^verbatim>\<open>move\<close>, called while the game is running, either applies a
  legal move or takes the caught-error branch, and that no exception escapes for any
  integers. In the position after the same eight moves the state is running, and
  \<^verbatim>\<open>move(5, 7)\<close> finds the key (5, 7) in the dictionary left over from white's turn. It
  overwrites white's piece, flips (6, 6) and (7, 5) along (1, -1), and then reads
  \<^verbatim>\<open>self.board[8][4]\<close>: the \<^verbatim>\<open>IndexError\<close> is not a \<^verbatim>\<open>KeyError\<close> and reaches the caller,
  with the three cells already changed.\<close>

theorem move_raises_IndexError:
  "play [(4, 5), (5, 5), (6, 5), (6, 6), (2, 3), (7, 5), (7, 7), (5, 7)]
     = Some (Inr stuck_position)
   \<and> is_running (state stuck_position)
   \<and> move stuck_position 5 7
       = Some (Inl (IndexError,
            stuck_position\<lparr>board := board_put (board_put (board_put (board stuck_position)
               5 7 (Some BLACK)) 6 6 (Some BLACK)) 7 5 (Some BLACK)\<rparr>))"
proof (intro conjI)
  show "play [(4, 5), (5, 5), (6, 5), (6, 6), (2, 3), (7, 5), (7, 7), (5, 7)]
     = Some (Inr stuck_position)"
    by (rule play_stuck)
  show "is_running (state stuck_position)"
    by (simp add: stuck_position_def is_running_def)
  show "move stuck_position 5 7
       = Some (Inl (IndexError,
            stuck_position\<lparr>board := board_put (board_put (board_put (board stuck_position)
               5 7 (Some BLACK)) 6 6 (Some BLACK)) 7 5 (Some BLACK)\<rparr>))"
    by code_simp
qed

text \<open>C8. For every running state and every cell that is not a key of the stored
  legal-move map, \<^verbatim>\<open>move\<close> prints the illegal-move message and returns with the whole
  engine state (board, counts, game state, legal-move map) as it was.\<close>

theorem move_illegal_unchanged:
  assumes "is_running (state g)" and "(row, col) \<notin> fst ` set (legal_moves g)"
  shows "move g row col = Some (Inr ([''Not a legal move!''], g))"
proof -
  from assms(2) have "map_of (legal_moves g) (row, col) = None"
    by (simp add: map_of_eq_None_iff)
  then show ?thesis by (simp add: move_def)
qed

theorem move_illegal_unchanged_witness:
  "is_running (state opening_position) \<and> (0, 0) \<notin> fst ` set (legal_moves opening_position)
   \<and> move opening_position 0 0 = Some (Inr ([''Not a legal move!''], opening_position))"
proof -
  have r: "is_running (state opening_position)"
    by (simp add: opening_position_def is_running_def)
  have k: "(0, 0) \<notin> fst ` set (legal_moves opening_position)"
    by (simp add: opening_position_def)
  from r k move_illegal_unchanged [OF r k] show ?thesis by simp
qed

text \<open>C7. The claim is that every precondition violation raises: \<^verbatim>\<open>start()\<close> outside the
  initializing state, \<^verbatim>\<open>move\<close> outside a running state, and \<^verbatim>\<open>analyze\<close> with a depth that
  is not positive or on a game that is not running. Neither \<^verbatim>\<open>start\<close> nor \<^verbatim>\<open>move\<close> tests
  the state. On a fresh engine, still initializing, \<^verbatim>\<open>move(2, 3)\<close> prints the illegal-move
  message and returns; \<^verbatim>\<open>start()\<close> called again on the running opening position returns
  as well.\<close>

theorem precondition_counterexample:
  "state init_game = INITIALIZING
   \<and> move init_game 2 3 = Some (Inr ([''Not a legal move!''], init_game))
   \<and> state opening_position = RUNNING_BLACK
   \<and> start opening_position [WHITE, BLACK] True = Some (Inr opening_position)"
  by code_simp

text \<open>C7, as amended. \<^verbatim>\<open>analyze\<close> raises \<^verbatim>\<open>AssertionError\<close> when the game is not running or
  the depth is not positive. \<^verbatim>\<open>start\<close> has no precondition on the state: on an engine
  in any state, with its 8 by 8 board, it returns and leaves a running game. \<^verbatim>\<open>move\<close> on
  the fresh engine reports an illegal move for every cell and changes nothing.\<close>

theorem precondition_checks:
  "(\<not> (is_running (state g) \<and> depth > 0) \<longrightarrow> analyze g depth = Some (Inl AssertionError))
   \<and> (full_board (board g) \<and> shuffled colors \<longrightarrow>
        (\<exists>g'. start g colors black_first = Some (Inr g') \<and> is_running (state g')))
   \<and> move init_game row col = Some (Inr ([''Not a legal move!''], init_game))"
  using start_returns [of g colors black_first]
  by (simp add: analyze_def move_def init_game_def)

theorem precondition_checks_witness:
  "\<not> (is_running (state opening_position) \<and> (0::int) > 0)
   \<and> analyze opening_position 0 = Some (Inl AssertionError)
   \<and> full_board (board opening_position) \<and> shuffled [WHITE, BLACK]
   \<and> (\<exists>g'. start opening_position [WHITE, BLACK] True = Some (Inr g')
          \<and> is_running (state g'))"
proof -
  have h1: "\<not> (is_running (state opening_position) \<and> (0::int) > 0)"
    by simp
  have h2: "full_board (board opening_position)"
    by code_simp
  have h3: "shuffled [WHITE, BLACK]"
    by (simp add: shuffled_def)
  from h1 h2 h3 precondition_checks [of opening_position 0 "[WHITE, BLACK]" True 0 0]
  show ?thesis by blast
qed

section \<open>What the static evaluation computes\<close>

lemma cells_of_set: "set (cells_of n m) = {(int r, int c) | r c. r < n \<and> c < m}"
  by (auto simp: cells_of_def)

lemma grid_fold_nth:
  fixes w :: "int list list"
  assumes "\<forall>(row, col) \<in> set cells. 0 \<le> row \<and> 0 \<le> col"
    and "r < length w" and "c < length (w ! r)"
  shows "foldl (\<lambda>weights (row, col).
                 weights[nat row := (weights ! nat row)[nat col := f row col]]) w cells ! r ! c
       = (if (int r, int c) \<in> set cells then f (int r) (int c) else w ! r ! c)"
  using assms
proof (induction cells arbitrary: w)
  case Nil
  then show ?case by simp
next
  case (Cons rc cells)
  obtain row col where rc: "rc = (row, col)" by (cases rc)
  from Cons.prems(1) rc have nn: "0 \<le> row" "0 \<le> col" by auto
  define w' where "w' = w[nat row := (w ! nat row)[nat col := f row col]]"
  have len1: "r < length w'"
    using Cons.prems(2) by (simp add: w'_def)
  have len2: "c < length (w' ! r)"
    using Cons.prems(2,3) by (cases "r = nat row") (simp_all add: w'_def)
  note len = len1 len2
  have rest: "\<forall>(row, col) \<in> set cells. 0 \<le> row \<and> 0 \<le> col"
    using Cons.prems(1) by auto
  have here: "w' ! r ! c = (if (int r, int c) = (row, col) then f row col else w ! r ! c)"
  proof (cases "r = nat row")
    case True
    with Cons.prems(2,3) nn show ?thesis
      by (cases "c = nat col") (auto simp: w'_def)
  next
    case False
    with Cons.prems(2) nn show ?thesis
      by (auto simp: w'_def)
  qed
  have "foldl (\<lambda>weights (row, col).
                 weights[nat row := (weights ! nat row)[nat col := f row col]]) w (rc # cells) ! r ! c
      = foldl (\<lambda>weights (row, col).
                 weights[nat row := (weights ! nat row)[nat col := f row col]]) w' cells ! r ! c"
    by (simp add: rc w'_def)
  also have "\<dots> = (if (int r, int c) \<in> set cells then f (int r) (int c) else w' ! r ! c)"
    by (rule Cons.IH [OF rest len])
  finally show ?case
    using here by (auto simp: rc)
qed

lemma build_weights_nth:
  assumes "r < n" and "c < n"
  shows "build_weights n ! r ! c = cell_weight (int n) (int r) (int c)"
proof -
  have "\<forall>(row, col) \<in> set (cells_of n n). 0 \<le> row \<and> 0 \<le> col"
    by (auto simp: cells_of_set)
  moreover have "r < length (replicate n (replicate n (0::int)))"
    and "c < length (replicate n (replicate n (0::int)) ! r)"
    using assms by simp_all
  moreover have "(int r, int c) \<in> set (cells_of n n)"
    using assms by (auto simp: cells_of_set)
  ultimately show ?thesis
    unfolding build_weights_def by (simp add: grid_fold_nth)
qed

lemma cell_weight_amended: "cell_weight n row col = amended_weight n row col"
  by (auto simp: cell_weight_def amended_weight_def Let_def
        SCORE_NORMAL_def SCORE_CORNER_def SCORE_AROUND_def SCORE_BOUND_def)

lemma cell_score_fold_sum:
  assumes "set cells \<subseteq> set (cells_of n n)"
  shows "foldl (\<lambda>score (row, col).
                  if at b row col = X then score + build_weights n ! nat row ! nat col
                  else if at b row col = Y then score - build_weights n ! nat row ! nat col
                  else score) s cells
       = s + (\<Sum>(row, col) \<leftarrow> cells.
                if at b row col = X then amended_weight (int n) row col
                else if at b row col = Y then - amended_weight (int n) row col
                else 0)"
  using assms
proof (induction cells arbitrary: s)
  case Nil
  then show ?case by simp
next
  case (Cons rc cells)
  obtain row col where rc: "rc = (row, col)" by (cases rc)
  from Cons.prems rc obtain r c where r: "row = int r" "col = int c" "r < n" "c < n"
    by (auto simp: cells_of_set)
  have w: "build_weights n ! nat row ! nat col = amended_weight (int n) row col"
    using build_weights_nth [OF r(3,4)] r(1,2) by (simp add: cell_weight_amended)
  from Cons.prems have "set cells \<subseteq> set (cells_of n n)" by simp
  from Cons.IH [OF this] show ?case
    by (simp add: rc w)
qed

lemma cell_score_weighted_sum:
  "cell_score b X Y = weighted_sum amended_weight b X Y"
  using cell_score_fold_sum [of "cells_of (length b) (length b)" "length b" b X Y 0]
  by (simp add: cell_score_def weighted_sum_def Let_def)

lemma freedom_score_claimed: "freedom_score om mm = claimed_freedom om mm"
  by (simp add: freedom_score_def claimed_freedom_def)

lemma cell_score_fold_neg:
  fixes w :: "int list list" and s :: int
  assumes "X \<noteq> Y"
  shows "foldl (\<lambda>score (row, col).
                  if at b row col = X then score + w ! nat row ! nat col
                  else if at b row col = Y then score - w ! nat row ! nat col
                  else score) s cells
       = - foldl (\<lambda>score (row, col).
                  if at b row col = Y then score + w ! nat row ! nat col
                  else if at b row col = X then score - w ! nat row ! nat col
                  else score) (- s) cells"
proof (induction cells arbitrary: s)
  case Nil
  show ?case by simp
next
  case (Cons rc cells)
  obtain row col where rc: "rc = (row, col)" by (cases rc)
  have a: "- (s + w ! nat row ! nat col) = - s - w ! nat row ! nat col"
    and b: "- (s - w ! nat row ! nat col) = - s + w ! nat row ! nat col"
    by simp_all
  show ?case
    using assms by (simp add: rc Cons.IH a b)
qed

lemma cell_score_antisym: "X \<noteq> Y \<Longrightarrow> cell_score b X Y = - cell_score b Y X"
  using cell_score_fold_neg [of X Y b "build_weights (length b)" 0]
  by (simp add: cell_score_def Let_def)

lemma freedom_score_swap: "freedom_score om mm = - freedom_score mm om"
  by (simp add: freedom_score_def)

lemma bot_search_legal_moves_swap:
  "bot_search_legal_moves b X Y False = bot_search_legal_moves b Y X True"
  by (simp add: bot_search_legal_moves_def)

lemma evaluate_antisym:
  assumes "X \<noteq> Y"
  shows "evaluate b X Y = map_option uminus (evaluate b Y X)"
proof -
  have e1: "bot_search_legal_moves b Y X False = bot_search_legal_moves b X Y True"
    and e2: "bot_search_legal_moves b Y X True = bot_search_legal_moves b X Y False"
    by (simp_all add: bot_search_legal_moves_def)
  have c: "cell_score b X Y = - cell_score b Y X"
    by (rule cell_score_antisym [OF assms])
  show ?thesis
  proof (cases "bot_search_legal_moves b X Y False")
    case None
    then show ?thesis
      by (simp add: evaluate_def e1 e2 split: option.splits)
  next
    case (Some om)
    show ?thesis
    proof (cases "bot_search_legal_moves b X Y True")
      case None
      with Some show ?thesis by (simp add: evaluate_def e1 e2)
    next
      case (Some mm)
      with \<open>bot_search_legal_moves b X Y False = Some om\<close> show ?thesis
        using freedom_score_swap [of om mm] by (simp add: evaluate_def e1 e2 c)
    qed
  qed
qed

section \<open>Claims about the static evaluation\<close>

text \<open>C9. For every board of \<open>N\<close> rows of \<open>N\<close> cells, the static evaluation with black as
  self and white as opponent is the negation of the evaluation with white as self and
  black as opponent, and the other way round. The evaluation is a partial result, because
  the two scans it runs may not return: both evaluations return on the same boards, and
  there the values are negations of each other.\<close>

theorem evaluate_symmetry:
  assumes "square b"
  shows "evaluate b (Some BLACK) (Some WHITE)
           = map_option uminus (evaluate b (Some WHITE) (Some BLACK))
       \<and> evaluate b (Some WHITE) (Some BLACK)
           = map_option uminus (evaluate b (Some BLACK) (Some WHITE))"
  using evaluate_antisym [of "Some BLACK" "Some WHITE" b]
    evaluate_antisym [of "Some WHITE" "Some BLACK" b]
  by simp

theorem evaluate_symmetry_witness:
  "square (board ten_moves_position)
   \<and> evaluate (board ten_moves_position) (Some BLACK) (Some WHITE)
       = map_option uminus (evaluate (board ten_moves_position) (Some WHITE) (Some BLACK))
   \<and> evaluate (board ten_moves_position) (Some WHITE) (Some BLACK)
       = map_option uminus (evaluate (board ten_moves_position) (Some BLACK) (Some WHITE))
   \<and> evaluate (board ten_moves_position) (Some BLACK) (Some WHITE) = Some (- 108)
   \<and> evaluate (board ten_moves_position) (Some WHITE) (Some BLACK) = Some 108"
proof -
  have h: "square (board ten_moves_position)"
    by code_simp
  have e: "evaluate (board ten_moves_position) (Some BLACK) (Some WHITE) = Some (- 108)"
    by code_simp
  have w: "evaluate (board ten_moves_position) (Some WHITE) (Some BLACK) = Some 108"
    by code_simp
  from h e w evaluate_symmetry [OF h] show ?thesis by blast
qed

text \<open>C6. The claim is that the evaluation is cell score plus freedom score, with a weight
  grid in which every non-corner cell with row or column in \<open>{0, 1, N - 2, N - 1}\<close> weighs
  - 10. In the position after the ten moves below both scans of the Search Engine return
  and the evaluation for black is - 108. White's piece on (7, 5), a non-corner cell of
  row \<open>N - 1\<close>, counts with the weight 10 of line 133, where the claimed grid has - 10, and
  white's piece on (6, 6), next to the corner and not on an edge, counts with the weight 1
  of line 124, where the claimed grid has - 10; with the claimed grid the sum is - 77. The freedom term is 0 either way: both scans of the
  Search Engine return the empty dictionary, and by the Game Engine's scan both sides have
  legal moves.\<close>

theorem evaluate_weight_counterexample:
  "play [(4, 5), (5, 5), (6, 5), (6, 6), (5, 4), (7, 5), (7, 6), (7, 7), (6, 7), (5, 6)]
     = Some (Inr ten_moves_position)
   \<and> evaluate (board ten_moves_position) (Some BLACK) (Some WHITE) = Some (- 108)
   \<and> cell_weight 8 7 5 = 10 \<and> claimed_weight 8 7 5 = - 10
   \<and> cell_weight 8 6 6 = 1 \<and> claimed_weight 8 6 6 = - 10
   \<and> weighted_sum claimed_weight (board ten_moves_position) (Some BLACK) (Some WHITE) = - 77
   \<and> bot_search_legal_moves (board ten_moves_position) (Some BLACK) (Some WHITE) False = Some []
   \<and> bot_search_legal_moves (board ten_moves_position) (Some BLACK) (Some WHITE) True = Some []
   \<and> claimed_freedom [] [] = 0
   \<and> search_legal_moves ten_moves_position = Some (Inr (legal_moves ten_moves_position))
   \<and> search_legal_moves (set_state ten_moves_position RUNNING_WHITE)
       = Some (Inr [((2, 3), [(1, 1)]), ((3, 2), [(1, 1)]), ((3, 5), [(0, -1), (1, 0)]),
                    ((5, 3), [(-1, 0), (0, 1)]), ((5, 7), [(1, 0)]), ((6, 4), [(0, 1)]),
                    ((7, 4), [(-1, 1)])])
   \<and> claimed_freedom
         [((2, 3), [(1, 1)]), ((3, 2), [(1, 1)]), ((3, 5), [(0, -1), (1, 0)]),
          ((5, 3), [(-1, 0), (0, 1)]), ((5, 7), [(1, 0)]), ((6, 4), [(0, 1)]),
          ((7, 4), [(-1, 1)])]
         (legal_moves ten_moves_position) = 0"
proof (intro conjI)
  show "play [(4, 5), (5, 5), (6, 5), (6, 6), (5, 4), (7, 5), (7, 6), (7, 7), (6, 7), (5, 6)]
     = Some (Inr ten_moves_position)"
    by (rule play_ten_moves)
  show "evaluate (board ten_moves_position) (Some BLACK) (Some WHITE) = Some (- 108)"
    by code_simp
  show "cell_weight 8 7 5 = 10"
    by code_simp
  show "claimed_weight 8 7 5 = - 10"
    by code_simp
  show "cell_weight 8 6 6 = 1"
    by code_simp
  show "claimed_weight 8 6 6 = - 10"
    by code_simp
  show "weighted_sum claimed_weight (board ten_moves_position) (Some BLACK) (Some WHITE) = - 77"
    by code_simp
  show "bot_search_legal_moves (board ten_moves_position) (Some BLACK) (Some WHITE) False
      = Some []"
    by code_simp
  show "bot_search_legal_moves (board ten_moves_position) (Some BLACK) (Some WHITE) True
      = Some []"
    by code_simp
  show "claimed_freedom [] [] = 0"
    by (simp add: claimed_freedom_def)
  show "search_legal_moves ten_moves_position = Some (Inr (legal_moves ten_moves_position))"
    by code_simp
  show "search_legal_moves (set_state ten_moves_position RUNNING_WHITE)
       = Some (Inr [((2, 3), [(1, 1)]), ((3, 2), [(1, 1)]), ((3, 5), [(0, -1), (1, 0)]),
                    ((5, 3), [(-1, 0), (0, 1)]), ((5, 7), [(1, 0)]), ((6, 4), [(0, 1)]),
                    ((7, 4), [(-1, 1)])])"
    by code_simp
  show "claimed_freedom
         [((2, 3), [(1, 1)]), ((3, 2), [(1, 1)]), ((3, 5), [(0, -1), (1, 0)]),
          ((5, 3), [(-1, 0), (0, 1)]), ((5, 7), [(1, 0)]), ((6, 4), [(0, 1)]),
          ((7, 4), [(-1, 1)])]
         (legal_moves ten_moves_position) = 0"
    by (simp add: claimed_freedom_def ten_moves_position_def)
qed

text \<open>C6, as amended. For every square board and colour assignment on which both scans of
  the Search Engine return, the evaluation is the cell score plus the freedom score. The
  cell score adds, over all cells, the weight of a cell of the evaluating side's colour
  and subtracts the weight of a cell of the other colour, with the grid: corners 100;
  interior cells 1; of the remaining cells, all on an edge, those with row and column
  both in \<open>{0, 1, N - 2, N - 1}\<close> weigh - 10 and the others 10. The freedom score is 100
  more when the scan for the opponent returned no move and 100 less when the scan for
  the evaluating side returned none.\<close>

theorem evaluate_is_cell_score_plus_freedom:
  assumes "square b"
    and "bot_search_legal_moves b self_color other_color False = Some opponent_moves"
    and "bot_search_legal_moves b self_color other_color True = Some my_moves"
  shows "evaluate b self_color other_color
       = Some (weighted_sum amended_weight b self_color other_color
               + claimed_freedom opponent_moves my_moves)"
  using assms(2,3)
  by (simp add: evaluate_def cell_score_weighted_sum freedom_score_claimed)

theorem evaluate_is_cell_score_plus_freedom_witness:
  "square (board ten_moves_position)
   \<and> bot_search_legal_moves (board ten_moves_position) (Some BLACK) (Some WHITE) False = Some []
   \<and> bot_search_legal_moves (board ten_moves_position) (Some BLACK) (Some WHITE) True = Some []
   \<and> evaluate (board ten_moves_position) (Some BLACK) (Some WHITE)
       = Some (weighted_sum amended_weight (board ten_moves_position) (Some BLACK) (Some WHITE)
               + claimed_freedom [] [])
   \<and> weighted_sum amended_weight (board ten_moves_position) (Some BLACK) (Some WHITE) = - 108"
proof -
  have h1: "square (board ten_moves_position)"
    by code_simp
  have h2: "bot_search_legal_moves (board ten_moves_position) (Some BLACK) (Some WHITE) False
      = Some []"
    by code_simp
  have h3: "bot_search_legal_moves (board ten_moves_position) (Some BLACK) (Some WHITE) True
      = Some []"
    by code_simp
  have h4: "weighted_sum amended_weight (board ten_moves_position) (Some BLACK) (Some WHITE)
      = - 108"
    by code_simp
  from h1 h2 h3 h4 evaluate_is_cell_score_plus_freedom [OF h1 h2 h3] show ?thesis
    by blast
qed

section \<open>Claims about negamax\<close>





end
